theory Spec2Isabelle
  imports Main "HOL-Library.Word"
begin

section \<open>The tagged-union container of variant.hpp\<close>

text \<open>
  \<^verbatim>\<open>variant<Types...>\<close> stores one value of one of the types of a fixed list. The
  list is a template parameter pack; here it is a list of type names, and every
  template that recurses over the pack is a function that recurses over the list.
  A discriminant is a \<^verbatim>\<open>std::size_t\<close>, taken as a 64-bit word, so that
  \<^verbatim>\<open>sizeof...(Types)\<close> is the length of the list as a word and
  \<^verbatim>\<open>std::size_t(-1)\<close> is the word \<open>- 1\<close>.
\<close>

subsection \<open>Types and values\<close>

text \<open>
  A type of the program is either a type known by its name, or
  \<^verbatim>\<open>recursive_wrapper<T>\<close> for a type \<open>T\<close>: the one type constructor the
  source distinguishes (the specialisation of \<^verbatim>\<open>unwrapper\<close>). Values are of any
  type \<open>'v\<close>; the storage of a container is untyped, as the raw bytes of the source
  are, and the static type at which a value is read is the template argument of the
  function that reads it.
\<close>

datatype 'n ctype = Plain 'n | recursive_wrapper "'n ctype"

type_synonym ('n, 'v) typed = "'n ctype \<times> 'v"

text \<open>
  What the container calls on its alternatives: each type's own \<^verbatim>\<open>operator==\<close>
  and \<^verbatim>\<open>operator<\<close>, its copy constructor and its move constructor, each of which
  yields the value it is given or throws, and the accessor of the indirection box.
\<close>

text \<open>
  Modelled from the spec: \<^verbatim>\<open>recursive_wrapper.hpp\<close> is included by the source and
  is not among the files. \<open>rw_get\<close> is \<^verbatim>\<open>recursive_wrapper<T>::get()\<close>, which
  "returns a reference to (or a copy of) the owned payload", and
  \<^verbatim>\<open>recursive_wrapper<T>::type\<close> is the payload's type \<open>T\<close>.
\<close>

record ('n, 'v) alternative_ops =
  rw_get :: "'v \<Rightarrow> 'v"
  op_eq :: "'n ctype \<Rightarrow> 'v \<Rightarrow> 'v \<Rightarrow> bool"
  op_less :: "'n ctype \<Rightarrow> 'v \<Rightarrow> 'v \<Rightarrow> bool"
  copy_throws :: "'n ctype \<Rightarrow> 'v \<Rightarrow> bool"
  move_throws :: "'n ctype \<Rightarrow> 'v \<Rightarrow> bool"

text \<open>
  The exceptions of the source are \<^verbatim>\<open>std::runtime_error\<close> with a message. Two
  more outcomes have no value to return: a read of storage that holds no object,
  and \<^verbatim>\<open>std::terminate\<close>, which ends the program when an exception leaves a
  \<^verbatim>\<open>noexcept\<close> function.
\<close>

datatype error = runtime_error string | uninitialized_storage | terminate

text \<open>Whether a constructor argument is an lvalue or an rvalue.\<close>

datatype value_category = lvalue | rvalue

type_synonym size_t = "64 word"

subsection \<open>Alternative registry\<close>

definition invalid_value :: size_t where
  "invalid_value = - 1"

fun type_traits_id :: "'t \<Rightarrow> 't list \<Rightarrow> size_t" where
  "type_traits_id T (First # Types) =
     (if T = First then of_nat (length Types) else type_traits_id T Types)"
| "type_traits_id T [] = invalid_value"

fun is_valid_type :: "'t \<Rightarrow> 't list \<Rightarrow> bool" where
  "is_valid_type T (First # Types) = (T = First \<or> is_valid_type T Types)"
| "is_valid_type T [] = False"

subsection \<open>Storage\<close>

text \<open>
  The storage holds no object (\<open>None\<close>) or one object. \<^verbatim>\<open>reinterpret_cast<T*>\<close> of
  the storage designates that object. The storage holds the object's value, not
  its bytes: \<^verbatim>\<open>swap\<close> and \<^verbatim>\<open>operator=\<close>, which exchange the bytes of two
  storages without running a constructor of the alternative, depend on the
  alternative's object representation and are not embedded.
\<close>

definition reinterpret_cast :: "'v option \<Rightarrow> error + 'v" where
  "reinterpret_cast d = (case d of Some x \<Rightarrow> Inr x | None \<Rightarrow> Inl uninitialized_storage)"

subsection \<open>Container\<close>

record 'v variant =
  type_index :: size_t
  data :: "'v option"

definition variant_default :: "'v variant" where
  "variant_default = \<lparr>type_index = invalid_value, data = None\<rparr>"

text \<open>
  Construction from a value of type \<open>T\<close>. The two constructors exist only when
  \<^verbatim>\<open>is_valid_type<T, Types...>\<close> holds (\<^verbatim>\<open>enable_if\<close>); \<open>None\<close> is the program
  that does not compile. An lvalue selects \<^verbatim>\<open>variant(T const&)\<close>, which places a copy
  in the storage with \<open>T\<close>'s copy constructor; an rvalue selects
  \<^verbatim>\<open>variant(T&&)\<close>, which uses \<open>T\<close>'s move constructor. Both are \<^verbatim>\<open>noexcept\<close>: an
  exception of the alternative's constructor ends the program.
\<close>

definition constructor_throws ::
  "('n, 'v) alternative_ops \<Rightarrow> value_category \<Rightarrow> 'n ctype \<Rightarrow> 'v \<Rightarrow> bool"
where
  "constructor_throws ops cat T val =
     (case cat of lvalue \<Rightarrow> copy_throws ops T val | rvalue \<Rightarrow> move_throws ops T val)"

definition variant_from_value ::
  "('n, 'v) alternative_ops \<Rightarrow> 'n ctype list \<Rightarrow> value_category \<Rightarrow> 'n ctype \<Rightarrow> 'v
   \<Rightarrow> (error + 'v variant) option"
where
  "variant_from_value ops Types cat T val =
     (if is_valid_type T Types
      then Some (if constructor_throws ops cat T val
                 then Inl terminate
                 else Inr \<lparr>type_index = type_traits_id T Types, data = Some val\<rparr>)
      else None)"

definition variant_is :: "'t list \<Rightarrow> 't \<Rightarrow> 'v variant \<Rightarrow> bool" where
  "variant_is Types T v = (type_index v = type_traits_id T Types)"

definition valid :: "'v variant \<Rightarrow> bool" where
  "valid v = (type_index v \<noteq> invalid_value)"

definition variant_get :: "'t list \<Rightarrow> 't \<Rightarrow> 'v variant \<Rightarrow> error + 'v" where
  "variant_get Types T v =
     (if type_index v = type_traits_id T Types
      then reinterpret_cast (data v)
      else Inl (runtime_error ''in get()''))"

definition get_type_index :: "'v variant \<Rightarrow> size_t" where
  "get_type_index v = type_index v"

subsection \<open>Dispatch\<close>

text \<open>
  A visitor is called with a value at a static type and returns a result or
  throws. \<open>VT\<close> is the list of alternatives of the container type \<^verbatim>\<open>V\<close>, which
  \<^verbatim>\<open>get<T>\<close> consults whole, while the dispatcher walks down its own pack.
\<close>

fun unwrapper :: "('n, 'v) alternative_ops \<Rightarrow> 'n ctype \<Rightarrow> 'v \<Rightarrow> ('n, 'v) typed" where
  "unwrapper ops (Plain n) obj = (Plain n, obj)"
| "unwrapper ops (recursive_wrapper T) obj = (T, rw_get ops obj)"

fun dispatcher_apply ::
  "('n, 'v) alternative_ops \<Rightarrow> 'n ctype list \<Rightarrow> 'n ctype list \<Rightarrow> 'v variant
   \<Rightarrow> (('n, 'v) typed \<Rightarrow> error + 'r) \<Rightarrow> error + 'r"
where
  "dispatcher_apply ops VT (T # Types) v f =
     (if get_type_index v = of_nat (length Types)
      then (case variant_get VT T v of
              Inl e \<Rightarrow> Inl e
            | Inr x \<Rightarrow> f (unwrapper ops T x))
      else dispatcher_apply ops VT Types v f)"
| "dispatcher_apply ops VT [] v f = Inl (runtime_error ''unary dispatch: FAIL'')"

fun binary_dispatcher_rhs_apply ::
  "('n, 'v) alternative_ops \<Rightarrow> 'n ctype list \<Rightarrow> 'n ctype \<Rightarrow> 'n ctype list
   \<Rightarrow> 'v variant \<Rightarrow> 'v variant
   \<Rightarrow> (('n, 'v) typed \<Rightarrow> ('n, 'v) typed \<Rightarrow> error + 'r) \<Rightarrow> error + 'r"
where
  "binary_dispatcher_rhs_apply ops VT T0 (T1 # Types) lhs rhs f =
     (if get_type_index rhs = of_nat (length Types)
      then (case variant_get VT T0 lhs of
              Inl e \<Rightarrow> Inl e
            | Inr l \<Rightarrow>
               (case variant_get VT T1 rhs of
                  Inl e \<Rightarrow> Inl e
                | Inr r \<Rightarrow> f (unwrapper ops T0 l) (unwrapper ops T1 r)))
      else binary_dispatcher_rhs_apply ops VT T0 Types lhs rhs f)"
| "binary_dispatcher_rhs_apply ops VT T [] lhs rhs f =
     Inl (runtime_error ''binary dispatch: FAIL'')"

fun binary_dispatcher_lhs_apply ::
  "'n ctype list \<Rightarrow> 'n ctype \<Rightarrow> 'n ctype list \<Rightarrow> 'v variant \<Rightarrow> 'v variant
   \<Rightarrow> (('n, 'v) typed \<Rightarrow> ('n, 'v) typed \<Rightarrow> error + 'r) \<Rightarrow> error + 'r"
where
  "binary_dispatcher_lhs_apply VT T0 (T1 # Types) lhs rhs f =
     (if get_type_index lhs = of_nat (length Types)
      then (case variant_get VT T1 lhs of
              Inl e \<Rightarrow> Inl e
            | Inr l \<Rightarrow>
               (case variant_get VT T0 rhs of
                  Inl e \<Rightarrow> Inl e
                | Inr r \<Rightarrow> f (T1, l) (T0, r)))
      else binary_dispatcher_lhs_apply VT T0 Types lhs rhs f)"
| "binary_dispatcher_lhs_apply VT T [] lhs rhs f =
     Inl (runtime_error ''binary dispatch: FAIL'')"

fun binary_dispatcher_apply ::
  "('n, 'v) alternative_ops \<Rightarrow> 'n ctype list \<Rightarrow> 'n ctype list \<Rightarrow> 'v variant \<Rightarrow> 'v variant
   \<Rightarrow> (('n, 'v) typed \<Rightarrow> ('n, 'v) typed \<Rightarrow> error + 'r) \<Rightarrow> error + 'r"
where
  "binary_dispatcher_apply ops VT (T # Types) v0 v1 f =
     (if get_type_index v0 = of_nat (length Types)
      then (if get_type_index v0 = get_type_index v1
            then (case variant_get VT T v0 of
                    Inl e \<Rightarrow> Inl e
                  | Inr x0 \<Rightarrow>
                     (case variant_get VT T v1 of
                        Inl e \<Rightarrow> Inl e
                      | Inr x1 \<Rightarrow> f (T, x0) (T, x1)))
            else binary_dispatcher_rhs_apply ops VT T Types v0 v1 f)
      else if get_type_index v1 = of_nat (length Types)
      then binary_dispatcher_lhs_apply VT T Types v0 v1 f
      else binary_dispatcher_apply ops VT Types v0 v1 f)"
| "binary_dispatcher_apply ops VT [] v0 v1 f =
     Inl (runtime_error ''binary dispatch: FAIL'')"

definition visit ::
  "('n, 'v) alternative_ops \<Rightarrow> 'n ctype list \<Rightarrow> 'v variant
   \<Rightarrow> (('n, 'v) typed \<Rightarrow> error + 'r) \<Rightarrow> error + 'r"
where
  "visit ops Types v f = dispatcher_apply ops Types Types v f"

definition binary_visit ::
  "('n, 'v) alternative_ops \<Rightarrow> 'n ctype list \<Rightarrow> 'v variant \<Rightarrow> 'v variant
   \<Rightarrow> (('n, 'v) typed \<Rightarrow> ('n, 'v) typed \<Rightarrow> error + 'r) \<Rightarrow> error + 'r"
where
  "binary_visit ops Types v0 v1 f = binary_dispatcher_apply ops Types Types v0 v1 f"

subsection \<open>Comparison\<close>

definition equal_comp :: "('n, 'v) alternative_ops \<Rightarrow> 'n ctype \<Rightarrow> 'v \<Rightarrow> 'v \<Rightarrow> bool" where
  "equal_comp ops T lhs rhs = op_eq ops T lhs rhs"

definition less_comp :: "('n, 'v) alternative_ops \<Rightarrow> 'n ctype \<Rightarrow> 'v \<Rightarrow> 'v \<Rightarrow> bool" where
  "less_comp ops T lhs rhs = op_less ops T lhs rhs"

definition comparer ::
  "'n ctype list \<Rightarrow> ('n ctype \<Rightarrow> 'v \<Rightarrow> 'v \<Rightarrow> bool) \<Rightarrow> 'v variant
   \<Rightarrow> ('n, 'v) typed \<Rightarrow> error + bool"
where
  "comparer VT Comp lhs = (\<lambda>(T, rhs_content).
     (case variant_get VT T lhs of
        Inl e \<Rightarrow> Inl e
      | Inr lhs_content \<Rightarrow> Inr (Comp T lhs_content rhs_content)))"

definition variant_eq ::
  "('n, 'v) alternative_ops \<Rightarrow> 'n ctype list \<Rightarrow> 'v variant \<Rightarrow> 'v variant \<Rightarrow> error + bool"
where
  "variant_eq ops Types this rhs =
     (if get_type_index this \<noteq> get_type_index rhs then Inr False
      else visit ops Types rhs (comparer Types (equal_comp ops) this))"

definition variant_less ::
  "('n, 'v) alternative_ops \<Rightarrow> 'n ctype list \<Rightarrow> 'v variant \<Rightarrow> 'v variant \<Rightarrow> error + bool"
where
  "variant_less ops Types this rhs =
     (if get_type_index this \<noteq> get_type_index rhs
      then Inr (get_type_index this < get_type_index rhs)
      else visit ops Types rhs (comparer Types (less_comp ops) this))"

subsection \<open>An instance: integers, text, doubles and boxes\<close>

text \<open>
  The alternatives of the examples. Of the doubles only the value the examples
  need is there, the not-a-number, which \<^verbatim>\<open>operator==\<close> of \<^verbatim>\<open>double\<close> holds
  different from itself. Text is ordered as \<^verbatim>\<open>std::string\<close> is, by its bytes.
  No constructor of these alternatives throws.
\<close>

datatype tname = Integer | Text | Double

datatype cvalue = IntV int | TextV string | NaN | Box cvalue

text \<open>
  Modelled from the spec: the box of the examples owns one payload, which its
  \<^verbatim>\<open>get()\<close> returns.
\<close>

fun example_rw_get :: "cvalue \<Rightarrow> cvalue" where
  "example_rw_get (Box p) = p"
| "example_rw_get x = x"

fun example_less :: "cvalue \<Rightarrow> cvalue \<Rightarrow> bool" where
  "example_less (IntV i) (IntV j) = (i < j)"
| "example_less (TextV s) (TextV t) =
     lexordp (\<lambda>c d. (of_char c :: nat) < of_char d) s t"
| "example_less x y = False"

definition example_ops :: "(tname, cvalue) alternative_ops" where
  "example_ops =
     \<lparr>rw_get = example_rw_get,
      op_eq = (\<lambda>T x y. x \<noteq> NaN \<and> x = y),
      op_less = (\<lambda>T x y. example_less x y),
      copy_throws = (\<lambda>T x. False),
      move_throws = (\<lambda>T x. False)\<rparr>"

text \<open>
  The same alternatives, with a text type whose copy constructor throws (as the
  copy of a \<^verbatim>\<open>std::string\<close> does when no memory is left).
\<close>

definition throwing_copy_ops :: "(tname, cvalue) alternative_ops" where
  "throwing_copy_ops = example_ops\<lparr>copy_throws := (\<lambda>T x. T = Plain Text)\<rparr>"

text \<open>A visitor that records the call it receives.\<close>

definition record_call ::
  "('n, 'v) typed \<Rightarrow> ('n, 'v) typed \<Rightarrow> error + (('n, 'v) typed \<times> ('n, 'v) typed) list"
where
  "record_call x y = Inr [(x, y)]"

section \<open>Properties of the registry\<close>

lemma size_t_of_nat_eq:
  "k < 2 ^ 64 \<Longrightarrow> m < 2 ^ 64 \<Longrightarrow> (of_nat k :: size_t) = of_nat m \<Longrightarrow> k = m"
proof -
  assume k: "k < 2 ^ 64" and m: "m < 2 ^ 64" and e: "(of_nat k :: size_t) = of_nat m"
  from e have "unat (of_nat k :: size_t) = unat (of_nat m :: size_t)" by simp
  with k m show "k = m" by (simp add: unat_of_nat)
qed

lemma size_t_of_nat_ne_invalid:
  "k < 2 ^ 64 - 1 \<Longrightarrow> (of_nat k :: size_t) \<noteq> invalid_value"
proof
  assume k: "k < 2 ^ 64 - 1" and e: "(of_nat k :: size_t) = invalid_value"
  from e have "unat (of_nat k :: size_t) = unat (- 1 :: size_t)"
    by (simp add: invalid_value_def)
  with k show False by (simp add: unat_of_nat unsigned_minus_1_eq_mask mask_eq_exp_minus_1)
qed

lemma is_valid_type_iff: "is_valid_type T Types \<longleftrightarrow> T \<in> set Types"
  by (induction Types) auto

lemma type_traits_id_undeclared:
  "T \<notin> set Types \<Longrightarrow> type_traits_id T Types = invalid_value"
  by (induction Types) auto

lemma type_traits_id_declared:
  "T \<in> set Types \<Longrightarrow> \<exists>k < length Types. type_traits_id T Types = of_nat k"
proof (induction Types)
  case Nil
  then show ?case by simp
next
  case (Cons First Types)
  show ?case
  proof (cases "T = First")
    case True
    then show ?thesis by auto
  next
    case False
    with Cons.prems have "T \<in> set Types" by simp
    from Cons.IH [OF this] obtain k where "k < length Types"
      and "type_traits_id T Types = of_nat k" by blast
    with False show ?thesis by (auto intro: exI [of _ k])
  qed
qed

lemma type_traits_id_nth:
  "distinct Types \<Longrightarrow> i < length Types \<Longrightarrow>
   type_traits_id (Types ! i) Types = of_nat (length Types - 1 - i)"
proof (induction Types arbitrary: i)
  case Nil
  then show ?case by simp
next
  case (Cons First Types)
  show ?case
  proof (cases i)
    case 0
    then show ?thesis by simp
  next
    case (Suc j)
    with Cons.prems have j: "j < length Types" and d: "distinct Types"
      and ne: "Types ! j \<noteq> First" by auto
    from Cons.IH [OF d j] Suc ne show ?thesis by simp
  qed
qed

lemma type_traits_id_ne_invalid:
  assumes "length Types < 2 ^ 64" and "T \<in> set Types"
  shows "type_traits_id T Types \<noteq> invalid_value"
proof -
  from type_traits_id_declared [OF assms(2)] obtain k
    where k: "k < length Types" and e: "type_traits_id T Types = of_nat k" by blast
  from k assms(1) have "k < 2 ^ 64 - 1" by simp
  with e show ?thesis by (simp add: size_t_of_nat_ne_invalid)
qed

lemma type_traits_id_inj:
  "length Types \<le> 2 ^ 64 \<Longrightarrow> T \<in> set Types \<Longrightarrow> U \<in> set Types \<Longrightarrow>
   type_traits_id T Types = type_traits_id U Types \<Longrightarrow> T = U"
proof (induction Types)
  case Nil
  then show ?case by simp
next
  case (Cons First Types)
  have len: "length Types < 2 ^ 64" using Cons.prems(1) by simp
  have head: "V \<in> set Types \<Longrightarrow> type_traits_id V Types \<noteq> of_nat (length Types)" for V
  proof
    assume "V \<in> set Types" and e: "type_traits_id V Types = of_nat (length Types)"
    from type_traits_id_declared [OF this(1)] obtain k
      where k: "k < length Types" and "type_traits_id V Types = of_nat k" by blast
    with e have "(of_nat k :: size_t) = of_nat (length Types)" by simp
    with k len have "k = length Types" by (intro size_t_of_nat_eq) auto
    with k show False by simp
  qed
  show ?case
  proof (cases "T = First")
    case T: True
    show ?thesis
    proof (cases "U = First")
      case True
      with T show ?thesis by simp
    next
      case False
      with Cons.prems(3) have "U \<in> set Types" by simp
      from head [OF this] T False Cons.prems(4) show ?thesis by simp
    qed
  next
    case T: False
    with Cons.prems(2) have Tin: "T \<in> set Types" by simp
    show ?thesis
    proof (cases "U = First")
      case True
      from head [OF Tin] T True Cons.prems(4) show ?thesis by simp
    next
      case False
      with Cons.prems(3) have "U \<in> set Types" by simp
      with Cons.IH [OF _ Tin this] len T False Cons.prems(4) show ?thesis by simp
    qed
  qed
qed

text \<open>
  C3. In a list of \<open>N\<close> distinct alternatives (that \<^verbatim>\<open>std::size_t\<close> can count) the
  id of the alternative at position \<open>i\<close> is \<open>N - 1 - i\<close>: the first gets \<open>N - 1\<close>, the
  last gets \<open>0\<close>. The ids are therefore below \<open>N\<close> and pairwise distinct, and none is
  the invalid marker, which is what every type outside the list gets.
\<close>

theorem type_traits_id_reverse_position:
  assumes "distinct Types" and "length Types < 2 ^ 64"
  shows "(\<forall>i < length Types.
            unat (type_traits_id (Types ! i) Types) = length Types - 1 - i
          \<and> unat (type_traits_id (Types ! i) Types) < length Types
          \<and> type_traits_id (Types ! i) Types \<noteq> invalid_value
          \<and> is_valid_type (Types ! i) Types)
       \<and> (Types \<noteq> [] \<longrightarrow> type_traits_id (last Types) Types = 0
            \<and> unat (type_traits_id (hd Types) Types) = length Types - 1)
       \<and> (\<forall>i < length Types. \<forall>j < length Types. i \<noteq> j \<longrightarrow>
            type_traits_id (Types ! i) Types \<noteq> type_traits_id (Types ! j) Types)
       \<and> (\<forall>T. T \<notin> set Types \<longrightarrow>
            type_traits_id T Types = invalid_value \<and> \<not> is_valid_type T Types)"
proof -
  have pos: "unat (type_traits_id (Types ! i) Types) = length Types - 1 - i"
    if "i < length Types" for i
  proof -
    have "length Types - 1 - i < 2 ^ 64" using assms(2) by simp
    then show ?thesis
      using type_traits_id_nth [OF assms(1) that] by (simp add: unat_of_nat)
  qed
  have first: "\<forall>i < length Types.
            unat (type_traits_id (Types ! i) Types) = length Types - 1 - i
          \<and> unat (type_traits_id (Types ! i) Types) < length Types
          \<and> type_traits_id (Types ! i) Types \<noteq> invalid_value
          \<and> is_valid_type (Types ! i) Types"
  proof (intro allI impI)
    fix i assume i: "i < length Types"
    then have "Types ! i \<in> set Types" by simp
    with pos [OF i] i type_traits_id_ne_invalid [OF assms(2)]
    show "unat (type_traits_id (Types ! i) Types) = length Types - 1 - i
          \<and> unat (type_traits_id (Types ! i) Types) < length Types
          \<and> type_traits_id (Types ! i) Types \<noteq> invalid_value
          \<and> is_valid_type (Types ! i) Types"
      by (simp add: is_valid_type_iff)
  qed
  have ends: "Types \<noteq> [] \<longrightarrow> type_traits_id (last Types) Types = 0
            \<and> unat (type_traits_id (hd Types) Types) = length Types - 1"
  proof
    assume ne: "Types \<noteq> []"
    then have l: "length Types - 1 < length Types" and z: "0 < length Types" by simp_all
    from type_traits_id_nth [OF assms(1) l] ne
    have "type_traits_id (last Types) Types = 0" by (simp add: last_conv_nth)
    moreover from pos [OF z] ne
    have "unat (type_traits_id (hd Types) Types) = length Types - 1"
      by (simp add: hd_conv_nth)
    ultimately show "type_traits_id (last Types) Types = 0
            \<and> unat (type_traits_id (hd Types) Types) = length Types - 1" by simp
  qed
  have inj: "\<forall>i < length Types. \<forall>j < length Types. i \<noteq> j \<longrightarrow>
            type_traits_id (Types ! i) Types \<noteq> type_traits_id (Types ! j) Types"
  proof (intro allI impI)
    fix i j assume i: "i < length Types" and j: "j < length Types" and ne: "i \<noteq> j"
    from pos [OF i] pos [OF j] i j ne
    have "unat (type_traits_id (Types ! i) Types) \<noteq> unat (type_traits_id (Types ! j) Types)"
      by simp
    then show "type_traits_id (Types ! i) Types \<noteq> type_traits_id (Types ! j) Types"
      by auto
  qed
  have out: "\<forall>T. T \<notin> set Types \<longrightarrow>
            type_traits_id T Types = invalid_value \<and> \<not> is_valid_type T Types"
    by (simp add: type_traits_id_undeclared is_valid_type_iff)
  from first ends inj out show ?thesis by blast
qed

theorem type_traits_id_reverse_position_witness:
  "distinct [Integer, Text, Double] \<and> length [Integer, Text, Double] < 2 ^ 64
   \<and> unat (type_traits_id Integer [Integer, Text, Double]) = 2
   \<and> unat (type_traits_id Text [Integer, Text, Double]) = 1
   \<and> type_traits_id Double [Integer, Text, Double] = 0
   \<and> type_traits_id Integer [Text, Double] = invalid_value"
  using type_traits_id_reverse_position [of "[Integer, Text, Double]"]
    type_traits_id_reverse_position [of "[Text, Double]"]
  by simp

section \<open>Properties of dispatch\<close>

lemma type_traits_id_below:
  assumes "length Types < 2 ^ 64" and "V \<in> set Types"
  shows "type_traits_id V Types \<noteq> of_nat (length Types)"
    and "type_traits_id V Types < of_nat (length Types)"
proof -
  from type_traits_id_declared [OF assms(2)] obtain k
    where k: "k < length Types" and e: "type_traits_id V Types = of_nat k" by blast
  from k assms(1) have "unat (of_nat k :: size_t) < unat (of_nat (length Types) :: size_t)"
    by (simp add: unat_of_nat)
  then have "(of_nat k :: size_t) < of_nat (length Types)"
    by (simp add: word_less_nat_alt)
  with e show "type_traits_id V Types < of_nat (length Types)" by simp
  then show "type_traits_id V Types \<noteq> of_nat (length Types)" by simp
qed

lemma dispatcher_apply_declared:
  assumes "length Types < 2 ^ 64" and "T \<in> set Types"
    and "type_index v = type_traits_id T Types"
  shows "dispatcher_apply ops VT Types v f =
     (case variant_get VT T v of Inl e \<Rightarrow> Inl e | Inr x \<Rightarrow> f (unwrapper ops T x))"
  using assms
proof (induction Types)
  case Nil
  then show ?case by simp
next
  case (Cons First Types)
  have len: "length Types < 2 ^ 64" using Cons.prems(1) by simp
  show ?case
  proof (cases "T = First")
    case True
    with Cons.prems(3) show ?thesis
      by (simp add: get_type_index_def split: sum.splits)
  next
    case False
    with Cons.prems have Tin: "T \<in> set Types"
      and idx: "type_index v = type_traits_id T Types" by simp_all
    from type_traits_id_below(1) [OF len Tin] idx
    have "get_type_index v \<noteq> of_nat (length Types)" by (simp add: get_type_index_def)
    with Cons.IH [OF len Tin idx] show ?thesis by simp
  qed
qed

lemma dispatcher_apply_invalid:
  assumes "length Types < 2 ^ 64" and "type_index v = invalid_value"
  shows "dispatcher_apply ops VT Types v f = Inl (runtime_error ''unary dispatch: FAIL'')"
  using assms
proof (induction Types)
  case Nil
  then show ?case by simp
next
  case (Cons First Types)
  then have len: "length Types < 2 ^ 64 - 1" and len': "length Types < 2 ^ 64" by simp_all
  from size_t_of_nat_ne_invalid [OF len] Cons.prems(2)
  have "get_type_index v \<noteq> of_nat (length Types)" by (simp add: get_type_index_def)
  with Cons.IH [OF len' Cons.prems(2)] show ?case by simp
qed

lemma binary_dispatcher_rhs_apply_declared:
  assumes "length Types < 2 ^ 64" and "Y \<in> set Types"
    and "type_index rhs = type_traits_id Y Types"
  shows "binary_dispatcher_rhs_apply ops VT T0 Types lhs rhs f =
     (case variant_get VT T0 lhs of
        Inl e \<Rightarrow> Inl e
      | Inr l \<Rightarrow>
         (case variant_get VT Y rhs of
            Inl e \<Rightarrow> Inl e
          | Inr r \<Rightarrow> f (unwrapper ops T0 l) (unwrapper ops Y r)))"
  using assms
proof (induction Types)
  case Nil
  then show ?case by simp
next
  case (Cons T1 Types)
  have len: "length Types < 2 ^ 64" using Cons.prems(1) by simp
  show ?case
  proof (cases "Y = T1")
    case True
    with Cons.prems(3) show ?thesis
      by (simp add: get_type_index_def split: sum.splits)
  next
    case False
    with Cons.prems have Yin: "Y \<in> set Types"
      and idx: "type_index rhs = type_traits_id Y Types" by simp_all
    from type_traits_id_below(1) [OF len Yin] idx
    have "get_type_index rhs \<noteq> of_nat (length Types)" by (simp add: get_type_index_def)
    with Cons.IH [OF len Yin idx] show ?thesis by simp
  qed
qed

lemma binary_dispatcher_lhs_apply_declared:
  assumes "length Types < 2 ^ 64" and "X \<in> set Types"
    and "type_index lhs = type_traits_id X Types"
  shows "binary_dispatcher_lhs_apply VT T0 Types lhs rhs f =
     (case variant_get VT X lhs of
        Inl e \<Rightarrow> Inl e
      | Inr l \<Rightarrow>
         (case variant_get VT T0 rhs of
            Inl e \<Rightarrow> Inl e
          | Inr r \<Rightarrow> f (X, l) (T0, r)))"
  using assms
proof (induction Types)
  case Nil
  then show ?case by simp
next
  case (Cons T1 Types)
  have len: "length Types < 2 ^ 64" using Cons.prems(1) by simp
  show ?case
  proof (cases "X = T1")
    case True
    with Cons.prems(3) show ?thesis
      by (simp add: get_type_index_def split: sum.splits)
  next
    case False
    with Cons.prems have Xin: "X \<in> set Types"
      and idx: "type_index lhs = type_traits_id X Types" by simp_all
    from type_traits_id_below(1) [OF len Xin] idx
    have "get_type_index lhs \<noteq> of_nat (length Types)" by (simp add: get_type_index_def)
    with Cons.IH [OF len Xin idx] show ?thesis by simp
  qed
qed

lemma binary_dispatcher_apply_declared:
  assumes "length Types < 2 ^ 64" and "X \<in> set Types" and "Y \<in> set Types"
    and "type_index v0 = type_traits_id X Types"
    and "type_index v1 = type_traits_id Y Types"
    and "variant_get VT X v0 = Inr a" and "variant_get VT Y v1 = Inr b"
  shows "binary_dispatcher_apply ops VT Types v0 v1 f =
     (if X = Y then f (X, a) (X, b)
      else if type_traits_id Y Types < type_traits_id X Types
      then f (unwrapper ops X a) (unwrapper ops Y b)
      else f (X, a) (Y, b))"
  using assms(1-5)
proof (induction Types)
  case Nil
  then show ?case by simp
next
  case (Cons First Types)
  have len: "length Types < 2 ^ 64" using Cons.prems(1) by simp
  note ga = assms(6) and gb = assms(7)
  show ?case
  proof (cases "X = First")
    case X: True
    show ?thesis
    proof (cases "Y = First")
      case True
      with X Cons.prems ga gb show ?thesis by (simp add: get_type_index_def)
    next
      case False
      with Cons.prems have Yin: "Y \<in> set Types"
        and idx: "type_index v1 = type_traits_id Y Types" by simp_all
      from type_traits_id_below [OF len Yin] idx X Cons.prems(4)
      have ne: "get_type_index v0 \<noteq> get_type_index v1"
        and lt: "type_traits_id Y (First # Types) < type_traits_id X (First # Types)"
        using False by (simp_all add: get_type_index_def)
      from X Cons.prems(4) have m: "get_type_index v0 = of_nat (length Types)"
        by (simp add: get_type_index_def)
      from binary_dispatcher_rhs_apply_declared [OF len Yin idx, of ops VT First v0 f]
        ga gb X False ne lt m
      show ?thesis by simp
    qed
  next
    case X: False
    with Cons.prems have Xin: "X \<in> set Types"
      and idx0: "type_index v0 = type_traits_id X Types" by simp_all
    from type_traits_id_below [OF len Xin] idx0
    have n0: "get_type_index v0 \<noteq> of_nat (length Types)"
      by (simp add: get_type_index_def)
    show ?thesis
    proof (cases "Y = First")
      case True
      with Cons.prems(5) have m: "get_type_index v1 = of_nat (length Types)"
        by (simp add: get_type_index_def)
      from type_traits_id_below(2) [OF len Xin] True X
      have nlt: "\<not> type_traits_id Y (First # Types) < type_traits_id X (First # Types)"
        by simp
      from binary_dispatcher_lhs_apply_declared [OF len Xin idx0, of VT First v1 f]
        ga gb X True n0 m nlt
      show ?thesis by auto
    next
      case False
      with Cons.prems have Yin: "Y \<in> set Types"
        and idx1: "type_index v1 = type_traits_id Y Types" by simp_all
      from type_traits_id_below [OF len Yin] idx1
      have n1: "get_type_index v1 \<noteq> of_nat (length Types)"
        by (simp add: get_type_index_def)
      from Cons.IH [OF len Xin Yin idx0 idx1] n0 n1 X False
      show ?thesis by simp
    qed
  qed
qed

section \<open>The container\<close>

text \<open>
  C2, as amended. For a declared alternative \<open>T\<close> (in a list that \<^verbatim>\<open>std::size_t\<close> can
  count) and a value \<open>v\<close> on which the constructor of \<open>T\<close> that the argument selects
  does not throw, the container constructed from \<open>v\<close> at type \<open>T\<close> exists,
  \<^verbatim>\<open>is<T>()\<close> holds of it, \<^verbatim>\<open>get<T>()\<close> returns \<open>v\<close>, and \<^verbatim>\<open>is<U>()\<close> fails for
  every other declared alternative \<open>U\<close>.
\<close>

theorem construct_is_get:
  assumes "length Types < 2 ^ 64" and "T \<in> set Types"
    and "\<not> constructor_throws ops cat T v"
  shows "\<exists>c. variant_from_value ops Types cat T v = Some (Inr c)
           \<and> variant_is Types T c
           \<and> variant_get Types T c = Inr v
           \<and> (\<forall>U \<in> set Types. U \<noteq> T \<longrightarrow> \<not> variant_is Types U c)"
proof -
  let ?c = "\<lparr>type_index = type_traits_id T Types, data = Some v\<rparr>"
  have c: "variant_from_value ops Types cat T v = Some (Inr ?c)"
    using assms(2,3) by (simp add: variant_from_value_def is_valid_type_iff)
  have is_T: "variant_is Types T ?c" by (simp add: variant_is_def)
  have get_T: "variant_get Types T ?c = Inr v"
    by (simp add: variant_get_def reinterpret_cast_def)
  have others: "\<forall>U \<in> set Types. U \<noteq> T \<longrightarrow> \<not> variant_is Types U ?c"
  proof (intro ballI impI)
    fix U assume U: "U \<in> set Types" and ne: "U \<noteq> T"
    from assms(1) have "length Types \<le> 2 ^ 64" by simp
    from type_traits_id_inj [OF this assms(2) U] ne
    show "\<not> variant_is Types U ?c" by (auto simp: variant_is_def)
  qed
  from c is_T get_T others show ?thesis by blast
qed

theorem construct_is_get_witness:
  "length [Plain Integer, Plain Text] < 2 ^ 64
   \<and> Plain Integer \<in> set [Plain Integer, Plain Text]
   \<and> \<not> constructor_throws example_ops rvalue (Plain Integer) (IntV 5)
   \<and> \<not> constructor_throws example_ops lvalue (Plain Integer) (IntV 5)
   \<and> (\<exists>c. variant_from_value example_ops [Plain Integer, Plain Text] rvalue
               (Plain Integer) (IntV 5) = Some (Inr c)
         \<and> variant_is [Plain Integer, Plain Text] (Plain Integer) c
         \<and> variant_get [Plain Integer, Plain Text] (Plain Integer) c = Inr (IntV 5)
         \<and> \<not> variant_is [Plain Integer, Plain Text] (Plain Text) c)
   \<and> (\<exists>c. variant_from_value example_ops [Plain Integer, Plain Text] lvalue
               (Plain Integer) (IntV 5) = Some (Inr c)
         \<and> variant_is [Plain Integer, Plain Text] (Plain Integer) c
         \<and> variant_get [Plain Integer, Plain Text] (Plain Integer) c = Inr (IntV 5)
         \<and> \<not> variant_is [Plain Integer, Plain Text] (Plain Text) c)"
  using construct_is_get [of "[Plain Integer, Plain Text]" "Plain Integer" example_ops
      rvalue "IntV 5"]
    construct_is_get [of "[Plain Integer, Plain Text]" "Plain Integer" example_ops
      lvalue "IntV 5"]
  by (simp add: constructor_throws_def example_ops_def)

text \<open>
  C2 as stated fails: where the copy constructor of the alternative throws,
  construction from an lvalue yields no container. The constructor is
  \<^verbatim>\<open>noexcept\<close> and the program ends.
\<close>

theorem construct_terminates:
  "Plain Text \<in> set [Plain Integer, Plain Text]
   \<and> copy_throws throwing_copy_ops (Plain Text) (TextV ''hi'')
   \<and> variant_from_value throwing_copy_ops [Plain Integer, Plain Text] lvalue
        (Plain Text) (TextV ''hi'')
     = Some (Inl terminate)"
  by (simp add: variant_from_value_def constructor_throws_def throwing_copy_ops_def
      example_ops_def)

text \<open>
  C4. \<^verbatim>\<open>get<T>()\<close> returns the stored object exactly when the discriminant is the id
  of \<open>T\<close> and the storage holds that object; when the discriminant is not the id of
  \<open>T\<close> it throws \<^verbatim>\<open>runtime_error("in get()")\<close>, which is its result: nothing is
  returned in its place. \<open>variant_get\<close> is a function of the container and writes
  nothing, as the source's \<^verbatim>\<open>get\<close> has no assignment: the container is the same
  after the call.
\<close>

theorem get_iff_type_index:
  "(variant_get Types T v = Inr x
      \<longleftrightarrow> type_index v = type_traits_id T Types \<and> data v = Some x)
   \<and> (type_index v \<noteq> type_traits_id T Types
      \<longrightarrow> variant_get Types T v = Inl (runtime_error ''in get()''))"
  by (auto simp: variant_get_def reinterpret_cast_def split: option.splits)

theorem get_iff_type_index_witness:
  "variant_get [Plain Integer, Plain Text] (Plain Integer)
     \<lparr>type_index = 1, data = Some (IntV 5)\<rparr> = Inr (IntV 5)
   \<and> type_index \<lparr>type_index = 1, data = Some (IntV 5)\<rparr>
       \<noteq> type_traits_id (Plain Text) [Plain Integer, Plain Text]
   \<and> variant_get [Plain Integer, Plain Text] (Plain Text)
       \<lparr>type_index = 1, data = Some (IntV 5)\<rparr> = Inl (runtime_error ''in get()'')"
  using get_iff_type_index [of "[Plain Integer, Plain Text]" "Plain Integer"
      "\<lparr>type_index = 1, data = Some (IntV 5)\<rparr>" "IntV 5"]
    get_iff_type_index [of "[Plain Integer, Plain Text]" "Plain Text"
      "\<lparr>type_index = 1, data = Some (IntV 5)\<rparr>" "IntV 5"]
  by simp

text \<open>
  C10. A default-constructed container is not valid, and for every declared
  alternative \<open>T\<close> (in a list that \<^verbatim>\<open>std::size_t\<close> can count) \<^verbatim>\<open>is<T>()\<close> is false
  and \<^verbatim>\<open>get<T>()\<close> throws \<^verbatim>\<open>runtime_error("in get()")\<close>.
\<close>

theorem default_constructed:
  assumes "length Types < 2 ^ 64"
  shows "\<not> valid (variant_default :: 'v variant)
       \<and> (\<forall>T \<in> set Types.
             \<not> variant_is Types T (variant_default :: 'v variant)
           \<and> variant_get Types T (variant_default :: 'v variant)
               = Inl (runtime_error ''in get()''))"
proof -
  have "invalid_value \<noteq> type_traits_id T Types" if "T \<in> set Types" for T
    using type_traits_id_ne_invalid [OF assms that] by simp
  then show ?thesis
    by (simp add: valid_def variant_default_def variant_is_def variant_get_def)
qed

theorem default_constructed_witness:
  "length [Plain Integer, Plain Text] < 2 ^ 64
   \<and> \<not> valid (variant_default :: cvalue variant)
   \<and> \<not> variant_is [Plain Integer, Plain Text] (Plain Integer) (variant_default :: cvalue variant)
   \<and> variant_get [Plain Integer, Plain Text] (Plain Text) (variant_default :: cvalue variant)
       = Inl (runtime_error ''in get()'')"
  using default_constructed [where 'v = cvalue, of "[Plain Integer, Plain Text]"]
  by simp

text \<open>
  C9. On two default-constructed containers \<^verbatim>\<open>==\<close> and \<^verbatim>\<open><\<close> return no value:
  the discriminants are equal, the dispatcher runs through the whole list and
  throws \<^verbatim>\<open>runtime_error("unary dispatch: FAIL")\<close>. The two containers are the same
  value, so this is also \<open>a == a\<close>.
\<close>

theorem empty_comparison_raises:
  assumes "length Types < 2 ^ 64"
  shows "variant_eq ops Types variant_default variant_default
           = Inl (runtime_error ''unary dispatch: FAIL'')
       \<and> variant_less ops Types variant_default variant_default
           = Inl (runtime_error ''unary dispatch: FAIL'')"
proof -
  have fail: "dispatcher_apply ops Types Types variant_default f
      = Inl (runtime_error ''unary dispatch: FAIL'')"
    for f :: "('a, 'b) typed \<Rightarrow> error + bool"
    using assms by (intro dispatcher_apply_invalid) (simp_all add: variant_default_def)
  show ?thesis
    by (simp add: variant_eq_def variant_less_def visit_def fail)
qed

theorem empty_comparison_raises_witness:
  "length [Plain Integer, Plain Text] < 2 ^ 64
   \<and> variant_eq example_ops [Plain Integer, Plain Text] variant_default variant_default
       = Inl (runtime_error ''unary dispatch: FAIL'')
   \<and> variant_less example_ops [Plain Integer, Plain Text] variant_default variant_default
       = Inl (runtime_error ''unary dispatch: FAIL'')"
  using empty_comparison_raises [of "[Plain Integer, Plain Text]" example_ops]
  by simp

section \<open>Equality\<close>

lemma visit_comparer_plain:
  assumes "length Types < 2 ^ 64" and "Plain n \<in> set Types"
    and "type_index a = type_traits_id (Plain n) Types" and "data a = Some x"
    and "type_index b = type_traits_id (Plain n) Types" and "data b = Some y"
  shows "visit ops Types b (comparer Types Comp a) = Inr (Comp (Plain n) x y)"
proof -
  have ga: "variant_get Types (Plain n) a = Inr x"
    using assms(3,4) by (simp add: variant_get_def reinterpret_cast_def)
  have gb: "variant_get Types (Plain n) b = Inr y"
    using assms(5,6) by (simp add: variant_get_def reinterpret_cast_def)
  from dispatcher_apply_declared [OF assms(1,2,5), of ops Types "comparer Types Comp a"]
  show ?thesis by (simp add: visit_def ga gb comparer_def)
qed

text \<open>
  C5, as amended. Containers with differing discriminants are unequal, in both
  orders. Two containers that hold the same declared alternative \<open>T\<close>, not an
  indirection box, compare by \<open>T\<close>'s own \<^verbatim>\<open>operator==\<close> on the two payloads; so
  \<open>a == a\<close> is true where \<open>T\<close>'s equality holds of the payload and itself, and
  \<open>a == b\<close> is \<open>b == a\<close> where \<open>T\<close>'s equality gives the same for the payloads in
  both orders.
\<close>

theorem variant_eq_own_equality:
  assumes "length Types < 2 ^ 64"
  shows "(type_index a \<noteq> type_index b \<longrightarrow>
            variant_eq ops Types a b = Inr False \<and> variant_eq ops Types b a = Inr False)
       \<and> (Plain n \<in> set Types
          \<and> type_index a = type_traits_id (Plain n) Types \<and> data a = Some x
          \<and> type_index b = type_traits_id (Plain n) Types \<and> data b = Some y \<longrightarrow>
            variant_eq ops Types a b = Inr (op_eq ops (Plain n) x y)
          \<and> (op_eq ops (Plain n) x x \<longrightarrow> variant_eq ops Types a a = Inr True)
          \<and> (op_eq ops (Plain n) x y = op_eq ops (Plain n) y x \<longrightarrow>
               variant_eq ops Types a b = variant_eq ops Types b a))"
proof (intro conjI impI)
  assume "type_index a \<noteq> type_index b"
  then show "variant_eq ops Types a b = Inr False" and "variant_eq ops Types b a = Inr False"
    by (simp_all add: variant_eq_def get_type_index_def)
next
  assume h: "Plain n \<in> set Types
          \<and> type_index a = type_traits_id (Plain n) Types \<and> data a = Some x
          \<and> type_index b = type_traits_id (Plain n) Types \<and> data b = Some y"
  then have T: "Plain n \<in> set Types"
    and ia: "type_index a = type_traits_id (Plain n) Types" and da: "data a = Some x"
    and ib: "type_index b = type_traits_id (Plain n) Types" and db: "data b = Some y"
    by simp_all
  have ab: "variant_eq ops Types a b = Inr (op_eq ops (Plain n) x y)"
    using visit_comparer_plain [OF assms T ia da ib db, of ops "equal_comp ops"] ia ib
    by (simp add: variant_eq_def get_type_index_def equal_comp_def)
  have ba: "variant_eq ops Types b a = Inr (op_eq ops (Plain n) y x)"
    using visit_comparer_plain [OF assms T ib db ia da, of ops "equal_comp ops"] ia ib
    by (simp add: variant_eq_def get_type_index_def equal_comp_def)
  have aa: "variant_eq ops Types a a = Inr (op_eq ops (Plain n) x x)"
    using visit_comparer_plain [OF assms T ia da ia da, of ops "equal_comp ops"]
    by (simp add: variant_eq_def get_type_index_def equal_comp_def)
  show "variant_eq ops Types a b = Inr (op_eq ops (Plain n) x y)" by (fact ab)
  show "variant_eq ops Types a a = Inr True" if "op_eq ops (Plain n) x x"
    using that aa by simp
  show "variant_eq ops Types a b = variant_eq ops Types b a"
    if "op_eq ops (Plain n) x y = op_eq ops (Plain n) y x"
    using that ab ba by simp
qed

theorem variant_eq_own_equality_witness:
  "length [Plain Integer, Plain Text] < 2 ^ 64
   \<and> type_index \<lparr>type_index = 1, data = Some (IntV 5)\<rparr>
       \<noteq> type_index \<lparr>type_index = 0, data = Some (TextV ''hi'')\<rparr>
   \<and> variant_eq example_ops [Plain Integer, Plain Text]
       \<lparr>type_index = 1, data = Some (IntV 5)\<rparr> \<lparr>type_index = 0, data = Some (TextV ''hi'')\<rparr>
       = Inr False
   \<and> Plain Integer \<in> set [Plain Integer, Plain Text]
   \<and> type_index \<lparr>type_index = 1, data = Some (IntV 5)\<rparr>
       = type_traits_id (Plain Integer) [Plain Integer, Plain Text]
   \<and> op_eq example_ops (Plain Integer) (IntV 5) (IntV 5)
   \<and> op_eq example_ops (Plain Integer) (IntV 5) (IntV 6)
       = op_eq example_ops (Plain Integer) (IntV 6) (IntV 5)
   \<and> variant_eq example_ops [Plain Integer, Plain Text]
       \<lparr>type_index = 1, data = Some (IntV 5)\<rparr> \<lparr>type_index = 1, data = Some (IntV 5)\<rparr>
       = Inr True
   \<and> variant_eq example_ops [Plain Integer, Plain Text]
       \<lparr>type_index = 1, data = Some (IntV 5)\<rparr> \<lparr>type_index = 1, data = Some (IntV 6)\<rparr>
       = Inr False
   \<and> variant_eq example_ops [Plain Integer, Plain Text]
       \<lparr>type_index = 1, data = Some (IntV 5)\<rparr> \<lparr>type_index = 1, data = Some (IntV 6)\<rparr>
     = variant_eq example_ops [Plain Integer, Plain Text]
       \<lparr>type_index = 1, data = Some (IntV 6)\<rparr> \<lparr>type_index = 1, data = Some (IntV 5)\<rparr>"
  using variant_eq_own_equality [of "[Plain Integer, Plain Text]"
      "\<lparr>type_index = 1, data = Some (IntV 5)\<rparr>"
      "\<lparr>type_index = 0, data = Some (TextV ''hi'')\<rparr>" example_ops Integer "IntV 5" "TextV ''hi''"]
    variant_eq_own_equality [of "[Plain Integer, Plain Text]"
      "\<lparr>type_index = 1, data = Some (IntV 5)\<rparr>"
      "\<lparr>type_index = 1, data = Some (IntV 6)\<rparr>" example_ops Integer "IntV 5" "IntV 6"]
  by (auto simp: example_ops_def)

text \<open>
  C5 as stated fails: equality of containers is only as reflexive as the
  alternative's own. A container that holds the \<^verbatim>\<open>double\<close> not-a-number is not
  equal to itself.
\<close>

theorem variant_eq_not_reflexive:
  "variant_from_value example_ops [Plain Integer, Plain Double] rvalue (Plain Double) NaN
     = Some (Inr \<lparr>type_index = 0, data = Some NaN\<rparr>)
   \<and> variant_eq example_ops [Plain Integer, Plain Double]
       \<lparr>type_index = 0, data = Some NaN\<rparr> \<lparr>type_index = 0, data = Some NaN\<rparr> = Inr False"
  by (simp add: variant_from_value_def constructor_throws_def variant_eq_def visit_def
      get_type_index_def variant_get_def reinterpret_cast_def comparer_def equal_comp_def
      example_ops_def)

section \<open>Binary visitation\<close>

text \<open>
  C6. Where the alternatives are indirection boxes the binary visit calls the
  visitor once, the left container's value first, but not at the types the
  containers hold once unwrapped: both holding \<^verbatim>\<open>recursive_wrapper<Integer>\<close>, the
  call is at the box type with the boxes, not at \<open>(Integer, Integer)\<close> with the
  payloads; and with \<^verbatim>\<open>Text\<close> on the left and the box on the right the second
  argument is the box, not the \<open>Integer\<close> it holds.
\<close>

theorem binary_visit_box_not_payload:
  "variant_from_value example_ops [recursive_wrapper (Plain Integer), Plain Integer, Plain Text]
       rvalue (recursive_wrapper (Plain Integer)) (Box (IntV 7))
     = Some (Inr \<lparr>type_index = 2, data = Some (Box (IntV 7))\<rparr>)
   \<and> variant_from_value example_ops [recursive_wrapper (Plain Integer), Plain Integer, Plain Text]
       rvalue (Plain Text) (TextV ''hi'')
     = Some (Inr \<lparr>type_index = 0, data = Some (TextV ''hi'')\<rparr>)
   \<and> binary_visit example_ops [recursive_wrapper (Plain Integer), Plain Integer, Plain Text]
        \<lparr>type_index = 2, data = Some (Box (IntV 7))\<rparr>
        \<lparr>type_index = 2, data = Some (Box (IntV 8))\<rparr> record_call
     = Inr [((recursive_wrapper (Plain Integer), Box (IntV 7)),
             (recursive_wrapper (Plain Integer), Box (IntV 8)))]
   \<and> binary_visit example_ops [recursive_wrapper (Plain Integer), Plain Integer, Plain Text]
        \<lparr>type_index = 2, data = Some (Box (IntV 7))\<rparr>
        \<lparr>type_index = 2, data = Some (Box (IntV 8))\<rparr> record_call
     \<noteq> Inr [((Plain Integer, IntV 7), (Plain Integer, IntV 8))]
   \<and> binary_visit example_ops [recursive_wrapper (Plain Integer), Plain Integer, Plain Text]
        \<lparr>type_index = 0, data = Some (TextV ''hi'')\<rparr>
        \<lparr>type_index = 2, data = Some (Box (IntV 7))\<rparr> record_call
     = Inr [((Plain Text, TextV ''hi''), (recursive_wrapper (Plain Integer), Box (IntV 7)))]
   \<and> binary_visit example_ops [recursive_wrapper (Plain Integer), Plain Integer, Plain Text]
        \<lparr>type_index = 0, data = Some (TextV ''hi'')\<rparr>
        \<lparr>type_index = 2, data = Some (Box (IntV 7))\<rparr> record_call
     \<noteq> Inr [((Plain Text, TextV ''hi''), (Plain Integer, IntV 7))]"
  by (simp add: variant_from_value_def constructor_throws_def binary_visit_def
      get_type_index_def variant_get_def reinterpret_cast_def record_call_def example_ops_def)

text \<open>
  C7. The two branches of \<^verbatim>\<open>binary_dispatcher\<close> that do not go through
  \<^verbatim>\<open>binary_dispatcher_rhs\<close> call the visitor with the box itself: the branch of
  equal discriminants and \<^verbatim>\<open>binary_dispatcher_lhs\<close>. The branch through
  \<^verbatim>\<open>binary_dispatcher_rhs\<close> and unary visitation pass the payload. Equality and
  ordering of two containers that hold a box reach no comparison: the visitor
  \<^verbatim>\<open>comparer\<close> receives the payload and asks the left side for the payload's type,
  and \<^verbatim>\<open>get\<close> throws.
\<close>

theorem binary_visit_passes_box:
  "variant_from_value example_ops [recursive_wrapper (Plain Integer), Plain Text] rvalue
       (recursive_wrapper (Plain Integer)) (Box (IntV 7))
     = Some (Inr \<lparr>type_index = 1, data = Some (Box (IntV 7))\<rparr>)
   \<and> variant_from_value example_ops [recursive_wrapper (Plain Integer), Plain Text] rvalue
       (Plain Text) (TextV ''hi'')
     = Some (Inr \<lparr>type_index = 0, data = Some (TextV ''hi'')\<rparr>)
   \<and> binary_visit example_ops [recursive_wrapper (Plain Integer), Plain Text]
        \<lparr>type_index = 1, data = Some (Box (IntV 7))\<rparr>
        \<lparr>type_index = 1, data = Some (Box (IntV 8))\<rparr> record_call
     = Inr [((recursive_wrapper (Plain Integer), Box (IntV 7)),
             (recursive_wrapper (Plain Integer), Box (IntV 8)))]
   \<and> binary_visit example_ops [recursive_wrapper (Plain Integer), Plain Text]
        \<lparr>type_index = 0, data = Some (TextV ''hi'')\<rparr>
        \<lparr>type_index = 1, data = Some (Box (IntV 7))\<rparr> record_call
     = Inr [((Plain Text, TextV ''hi''), (recursive_wrapper (Plain Integer), Box (IntV 7)))]
   \<and> binary_visit example_ops [recursive_wrapper (Plain Integer), Plain Text]
        \<lparr>type_index = 1, data = Some (Box (IntV 7))\<rparr>
        \<lparr>type_index = 0, data = Some (TextV ''hi'')\<rparr> record_call
     = Inr [((Plain Integer, IntV 7), (Plain Text, TextV ''hi''))]
   \<and> visit example_ops [recursive_wrapper (Plain Integer), Plain Text]
        \<lparr>type_index = 1, data = Some (Box (IntV 7))\<rparr> (\<lambda>x. Inr [x])
     = Inr [(Plain Integer, IntV 7)]
   \<and> variant_eq example_ops [recursive_wrapper (Plain Integer), Plain Text]
        \<lparr>type_index = 1, data = Some (Box (IntV 7))\<rparr>
        \<lparr>type_index = 1, data = Some (Box (IntV 7))\<rparr>
     = Inl (runtime_error ''in get()'')
   \<and> variant_less example_ops [recursive_wrapper (Plain Integer), Plain Text]
        \<lparr>type_index = 1, data = Some (Box (IntV 7))\<rparr>
        \<lparr>type_index = 1, data = Some (Box (IntV 8))\<rparr>
     = Inl (runtime_error ''in get()'')"
  by (simp add: variant_from_value_def constructor_throws_def binary_visit_def visit_def
      get_type_index_def variant_get_def reinterpret_cast_def record_call_def example_ops_def
      variant_eq_def variant_less_def comparer_def invalid_value_def)

section \<open>The example scenario\<close>

text \<open>
  C1, as amended. With the alternatives \<open>{Integer, Text}\<close>, \<open>a\<close> made from
  \<open>Integer(5)\<close> and \<open>b\<close> from \<open>Text("hi")\<close>: \<^verbatim>\<open>a.is<Integer>()\<close> is true,
  \<^verbatim>\<open>a.get<Integer>()\<close> is \<open>5\<close>, \<open>a == b\<close> is false, \<open>a < b\<close> is false and \<open>b < a\<close> is
  true: \<open>Integer\<close>, declared first of two, has the discriminant \<open>1\<close> and \<open>Text\<close> has
  \<open>0\<close>.
\<close>

theorem example_scenario:
  "variant_from_value example_ops [Plain Integer, Plain Text] rvalue (Plain Integer) (IntV 5)
     = Some (Inr \<lparr>type_index = 1, data = Some (IntV 5)\<rparr>)
   \<and> variant_from_value example_ops [Plain Integer, Plain Text] rvalue (Plain Text) (TextV ''hi'')
     = Some (Inr \<lparr>type_index = 0, data = Some (TextV ''hi'')\<rparr>)
   \<and> variant_is [Plain Integer, Plain Text] (Plain Integer)
        \<lparr>type_index = 1, data = Some (IntV 5)\<rparr>
   \<and> variant_get [Plain Integer, Plain Text] (Plain Integer)
        \<lparr>type_index = 1, data = Some (IntV 5)\<rparr> = Inr (IntV 5)
   \<and> variant_eq example_ops [Plain Integer, Plain Text]
        \<lparr>type_index = 1, data = Some (IntV 5)\<rparr>
        \<lparr>type_index = 0, data = Some (TextV ''hi'')\<rparr> = Inr False
   \<and> variant_less example_ops [Plain Integer, Plain Text]
        \<lparr>type_index = 1, data = Some (IntV 5)\<rparr>
        \<lparr>type_index = 0, data = Some (TextV ''hi'')\<rparr> = Inr False
   \<and> variant_less example_ops [Plain Integer, Plain Text]
        \<lparr>type_index = 0, data = Some (TextV ''hi'')\<rparr>
        \<lparr>type_index = 1, data = Some (IntV 5)\<rparr> = Inr True"
  by (simp add: variant_from_value_def constructor_throws_def example_ops_def variant_is_def
      variant_get_def reinterpret_cast_def variant_eq_def variant_less_def get_type_index_def)

text \<open>C1 as stated fails: \<open>a < b\<close> does not return true.\<close>

theorem example_less_is_false:
  "variant_from_value example_ops [Plain Integer, Plain Text] rvalue (Plain Integer) (IntV 5)
     = Some (Inr \<lparr>type_index = 1, data = Some (IntV 5)\<rparr>)
   \<and> variant_from_value example_ops [Plain Integer, Plain Text] rvalue (Plain Text) (TextV ''hi'')
     = Some (Inr \<lparr>type_index = 0, data = Some (TextV ''hi'')\<rparr>)
   \<and> variant_less example_ops [Plain Integer, Plain Text]
        \<lparr>type_index = 1, data = Some (IntV 5)\<rparr>
        \<lparr>type_index = 0, data = Some (TextV ''hi'')\<rparr> \<noteq> Inr True"
  by (simp add: variant_from_value_def constructor_throws_def example_ops_def variant_less_def
      get_type_index_def)

end
